theory Spec2Isabelle
  imports Main "HOL-Library.AList"
begin

section \<open>Python values\<close>

text \<open>
  The SDK moves JSON-shaped Python values around: \<^verbatim>\<open>None\<close>, booleans, integers,
  strings, lists and string-keyed dictionaries. The hashable ones (those that can be a
  dictionary key or an attribute of a lookup) are the scalars. Floating-point numbers
  are left out of the value type.

  A Python \<^verbatim>\<open>dict\<close> is an association list in insertion order:
  \<^verbatim>\<open>d.get(k)\<close> is \<open>map_of d k\<close>, \<^verbatim>\<open>d[k] = v\<close> is \<open>AList.update k v d\<close> (an existing
  key keeps its place, a new key goes last), \<^verbatim>\<open>del d[k]\<close> is \<open>AList.delete k d\<close>
  and \<^verbatim>\<open>d.values()\<close> is \<open>map snd d\<close>.
\<close>

datatype scalar = SNone | SBool bool | SInt int | SStr string

datatype pyval = Atom scalar | PList "pyval list" | PDict "(string \<times> pyval) list"

type_synonym pydict = "(string \<times> pyval) list"

abbreviation PNone :: pyval where "PNone \<equiv> Atom SNone"
abbreviation PBool :: "bool \<Rightarrow> pyval" where "PBool b \<equiv> Atom (SBool b)"
abbreviation PInt :: "int \<Rightarrow> pyval" where "PInt i \<equiv> Atom (SInt i)"
abbreviation PStr :: "string \<Rightarrow> pyval" where "PStr s \<equiv> Atom (SStr s)"

text \<open>
  Python's \<^verbatim>\<open>==\<close> on these values: \<^verbatim>\<open>bool\<close> is a subtype of \<^verbatim>\<open>int\<close>
  (\<^verbatim>\<open>True == 1\<close>), \<^verbatim>\<open>None\<close> equals only \<^verbatim>\<open>None\<close>, lists are compared element by
  element and dictionaries as sets of items, whatever their order.
\<close>

fun scalar_eq :: "scalar \<Rightarrow> scalar \<Rightarrow> bool" where
  "scalar_eq SNone SNone = True"
| "scalar_eq (SBool a) (SBool b) = (a = b)"
| "scalar_eq (SBool a) (SInt j) = ((if a then 1 else 0) = j)"
| "scalar_eq (SInt i) (SBool b) = (i = (if b then 1 else 0))"
| "scalar_eq (SInt i) (SInt j) = (i = j)"
| "scalar_eq (SStr s) (SStr t) = (s = t)"
| "scalar_eq _ _ = False"

fun py_eq :: "pyval \<Rightarrow> pyval \<Rightarrow> bool"
  and py_eq_list :: "pyval list \<Rightarrow> pyval list \<Rightarrow> bool"
  and py_items_in :: "pydict \<Rightarrow> pydict \<Rightarrow> bool" where
  "py_eq (Atom a) (Atom b) = scalar_eq a b"
| "py_eq (PList xs) (PList ys) = py_eq_list xs ys"
| "py_eq (PDict d) (PDict e) = (length d = length e \<and> py_items_in d e)"
| "py_eq _ _ = False"
| "py_eq_list [] [] = True"
| "py_eq_list (x # xs) (y # ys) = (py_eq x y \<and> py_eq_list xs ys)"
| "py_eq_list _ _ = False"
| "py_items_in [] e = True"
| "py_items_in ((k, v) # d) e =
     ((case map_of e k of None \<Rightarrow> False | Some w \<Rightarrow> py_eq v w) \<and> py_items_in d e)"

text \<open>Truthiness, as \<^verbatim>\<open>if x:\<close> tests it.\<close>

fun truthy :: "pyval \<Rightarrow> bool" where
  "truthy (Atom SNone) = False"
| "truthy (Atom (SBool b)) = b"
| "truthy (Atom (SInt i)) = (i \<noteq> 0)"
| "truthy (Atom (SStr s)) = (s \<noteq> [])"
| "truthy (PList xs) = (xs \<noteq> [])"
| "truthy (PDict d) = (d \<noteq> [])"

text \<open>\<^verbatim>\<open>r.get(k)\<close> on a dictionary value: the field, or \<^verbatim>\<open>None\<close> when it is absent.\<close>

definition dict_get :: "pydict \<Rightarrow> string \<Rightarrow> pyval" where
  "dict_get r k = (case map_of r k of None \<Rightarrow> PNone | Some x \<Rightarrow> x)"

text \<open>\<^verbatim>\<open>body.get(k, default)\<close>.\<close>

definition dict_get_default :: "pydict \<Rightarrow> string \<Rightarrow> pyval \<Rightarrow> pyval" where
  "dict_get_default r k dflt = (case map_of r k of None \<Rightarrow> dflt | Some x \<Rightarrow> x)"

datatype error = TypeError | AttributeError | HandlerError string

section \<open>InMemoryStorage (storage.py)\<close>

text \<open>
  \<^verbatim>\<open>relations[relation_name][key] = {"value": value, "meta": {"lastWrittenAt": t}}\<close>.
  The clock reading \<^verbatim>\<open>time.time()\<close> is an argument of \<open>put\<close>; its type is left open.
  Every operation starts with \<^verbatim>\<open>_ensure_relation\<close>, which creates the relation when it
  is missing, so every operation returns the storage it leaves behind. Relation names
  and keys are strings, as the signatures declare them, and stored values are
  dictionaries; with such arguments no operation raises.
\<close>

record 't entry =
  entry_value :: pydict
  lastWrittenAt :: 't

type_synonym 't relation = "(string \<times> 't entry) list"
type_synonym 't storage = "(string \<times> 't relation) list"

definition InMemoryStorage :: "'t storage" where
  "InMemoryStorage = []"

definition ensure_relation :: "'t storage \<Rightarrow> string \<Rightarrow> 't relation \<times> 't storage" where
  "ensure_relation s relation =
     (case map_of s relation of
        None \<Rightarrow> ([], AList.update relation [] s)
      | Some rel \<Rightarrow> (rel, s))"

definition get :: "'t storage \<Rightarrow> string \<Rightarrow> string \<Rightarrow> pydict option \<times> 't storage" where
  "get s relation key =
     (let (rel, s') = ensure_relation s relation
      in (case map_of rel key of None \<Rightarrow> None | Some e \<Rightarrow> Some (entry_value e), s'))"

definition put :: "'t storage \<Rightarrow> string \<Rightarrow> string \<Rightarrow> pydict \<Rightarrow> 't \<Rightarrow> 't storage" where
  "put s relation key v now =
     (let (rel, s') = ensure_relation s relation
      in AList.update relation
           (AList.update key \<lparr>entry_value = v, lastWrittenAt = now\<rparr> rel) s')"

definition delete :: "'t storage \<Rightarrow> string \<Rightarrow> string \<Rightarrow> bool \<times> 't storage" where
  "delete s relation key =
     (let (rel, s') = ensure_relation s relation
      in if map_of rel key \<noteq> None
         then (True, AList.update relation (AList.delete key rel) s')
         else (False, s'))"

text \<open>
  \<^verbatim>\<open>find\<close> takes the filter as the caller hands it over (the query route passes
  \<^verbatim>\<open>body.get("args")\<close> on unchecked). A falsy filter (\<^verbatim>\<open>None\<close>, the empty dictionary)
  returns every value. Otherwise \<^verbatim>\<open>args.items()\<close> is evaluated once for each stored
  value, so a truthy filter that is not a dictionary raises \<^verbatim>\<open>AttributeError\<close> as soon
  as the relation holds a value, and not before.
\<close>

definition matches :: "pydict \<Rightarrow> pydict \<Rightarrow> bool" where
  "matches args r = list_all (\<lambda>(k, v). py_eq (dict_get r k) v) args"

definition find_storage :: "'t storage \<Rightarrow> string \<Rightarrow> pyval \<Rightarrow> (error + pydict list) \<times> 't storage" where
  "find_storage s relation args =
     (let (rel, s') = ensure_relation s relation;
          results = map (\<lambda>(k, e). entry_value e) rel
      in if truthy args
         then (case args of
                 PDict a \<Rightarrow> (Inr (filter (matches a) results), s')
               | _ \<Rightarrow> (if results = [] then Inr [] else Inl AttributeError, s'))
         else (Inr results, s'))"

subsection \<open>Sequences of storage operations\<close>

datatype 't storage_op =
    Get string string
  | Put string string pydict 't
  | Delete string string
  | Find string pyval

fun apply_op :: "'t storage \<Rightarrow> 't storage_op \<Rightarrow> 't storage" where
  "apply_op s (Get r k) = snd (get s r k)"
| "apply_op s (Put r k v now) = put s r k v now"
| "apply_op s (Delete r k) = snd (delete s r k)"
| "apply_op s (Find r args) = snd (find_storage s r args)"

definition run_ops :: "'t storage_op list \<Rightarrow> 't storage" where
  "run_ops ops = foldl apply_op InMemoryStorage ops"

fun writes :: "string \<Rightarrow> string \<Rightarrow> 't storage_op \<Rightarrow> bool" where
  "writes r k (Put r' k' v now) = (r' = r \<and> k' = k)"
| "writes r k _ = False"

fun writes_relation :: "string \<Rightarrow> 't storage_op \<Rightarrow> bool" where
  "writes_relation r (Put r' k' v now) = (r' = r)"
| "writes_relation r _ = False"

text \<open>The values a relation holds, in the order \<^verbatim>\<open>rel.values()\<close> yields them.\<close>

definition stored_values :: "'t storage \<Rightarrow> string \<Rightarrow> pydict list" where
  "stored_values s relation =
     (case map_of s relation of None \<Rightarrow> [] | Some rel \<Rightarrow> map (\<lambda>(k, e). entry_value e) rel)"

definition stored :: "'t storage \<Rightarrow> string \<Rightarrow> string \<Rightarrow> 't entry option" where
  "stored s relation key =
     (case map_of s relation of None \<Rightarrow> None | Some rel \<Rightarrow> map_of rel key)"

section \<open>ConceptHandler (handler.py)\<close>

text \<open>
  What \<^verbatim>\<open>getattr(self, action, None)\<close> can find on a handler instance: \<^verbatim>\<open>None\<close> itself,
  a coroutine function (an \<^verbatim>\<open>async def\<close> method, for which
  \<^verbatim>\<open>inspect.iscoroutinefunction\<close> holds), or any other object. A coroutine function is
  modelled by what calling it with \<^verbatim>\<open>(input, storage)\<close> and awaiting it does: it raises
  or returns a value, and leaves a storage behind. Methods that never complete, and the
  state a handler instance may keep of its own, are outside the model.

  A handler instance is the table of the attributes its subclass and the Python object
  model supply. The one attribute the base class \<^verbatim>\<open>ConceptHandler\<close> defines is
  \<^verbatim>\<open>handle\<close> itself, \<^verbatim>\<open>async def handle(self, action, input, storage)\<close>: a coroutine
  function with three parameters after \<^verbatim>\<open>self\<close>, so that calling it with the two
  arguments \<^verbatim>\<open>(input, storage)\<close> raises \<^verbatim>\<open>TypeError\<close> (the parameter \<^verbatim>\<open>storage\<close> is
  missing). Handlers are taken not to shadow \<^verbatim>\<open>handle\<close>, since the dispatcher modelled
  here is the inherited one.
\<close>

datatype 't attr =
    NoneValue
  | CoroutineFunction "pyval \<Rightarrow> 't storage \<Rightarrow> (error + pyval) \<times> 't storage"
  | OtherValue

type_synonym 't handler = "string \<Rightarrow> 't attr option"

definition base_handle :: "'t attr" where
  "base_handle = CoroutineFunction (\<lambda>input storage. (Inl TypeError, storage))"

definition getattr :: "'t handler \<Rightarrow> string \<Rightarrow> 't attr" where
  "getattr self action =
     (if action = ''handle'' then base_handle
      else case self action of None \<Rightarrow> NoneValue | Some a \<Rightarrow> a)"

definition handle ::
  "'t handler \<Rightarrow> string \<Rightarrow> pyval \<Rightarrow> 't storage \<Rightarrow> (error + pyval) \<times> 't storage" where
  "handle self action input storage =
     (case getattr self action of
        NoneValue \<Rightarrow>
          (Inr (PDict [(''variant'', PStr ''error''),
                       (''message'', PStr (''Unknown action: '' @ action))]), storage)
      | OtherValue \<Rightarrow>
          (Inr (PDict [(''variant'', PStr ''error''),
                       (''message'', PStr (''Action '' @ [CHR 0x27] @ action @ [CHR 0x27]
                                             @ '' must be async''))]), storage)
      | CoroutineFunction method \<Rightarrow>
          (case method input storage of
             (Inl e, storage') \<Rightarrow> (Inl e, storage')
           | (Inr result, storage') \<Rightarrow>
               (case result of
                  PDict d \<Rightarrow>
                    if map_of d ''variant'' = None
                    then (Inr (PDict [(''variant'', PStr ''error''),
                            (''message'', PStr (''Action '' @ [CHR 0x27] @ action @ [CHR 0x27]
                               @ '' must return dict with '' @ [CHR 0x27] @ ''variant''
                               @ [CHR 0x27] @ '' key''))]), storage')
                    else (Inr result, storage')
                | _ \<Rightarrow>
                    (Inr (PDict [(''variant'', PStr ''error''),
                            (''message'', PStr (''Action '' @ [CHR 0x27] @ action @ [CHR 0x27]
                               @ '' must return dict with '' @ [CHR 0x27] @ ''variant''
                               @ [CHR 0x27] @ '' key''))]), storage'))))"

text \<open>
  The attributes the Python object model supplies on an instance of any class written
  as the handlers are (CPython 3.11), apart from \<^verbatim>\<open>__doc__\<close>, which is the class's own:
  \<^verbatim>\<open>__weakref__\<close> is \<^verbatim>\<open>None\<close>, and the others are objects that are not coroutine
  functions (the class, the instance dictionary, the module name, and the methods
  inherited from \<^verbatim>\<open>object\<close>).
\<close>

definition object_attributes :: "(string \<times> 't attr) list" where
  "object_attributes =
     [(''__class__'', OtherValue), (''__delattr__'', OtherValue),
      (''__dict__'', OtherValue), (''__dir__'', OtherValue),
      (''__eq__'', OtherValue), (''__format__'', OtherValue),
      (''__ge__'', OtherValue), (''__getattribute__'', OtherValue),
      (''__getstate__'', OtherValue), (''__gt__'', OtherValue),
      (''__hash__'', OtherValue), (''__init__'', OtherValue),
      (''__init_subclass__'', OtherValue), (''__le__'', OtherValue),
      (''__lt__'', OtherValue), (''__module__'', OtherValue),
      (''__ne__'', OtherValue), (''__new__'', OtherValue),
      (''__reduce__'', OtherValue), (''__reduce_ex__'', OtherValue),
      (''__repr__'', OtherValue), (''__setattr__'', OtherValue),
      (''__sizeof__'', OtherValue), (''__str__'', OtherValue),
      (''__subclasshook__'', OtherValue), (''__weakref__'', NoneValue)]"

text \<open>
  The handler of the SDK's tests (\<^verbatim>\<open>tests/test_sdk.py\<close>):
  \<^verbatim>\<open>echo\<close> returns \<^verbatim>\<open>{"variant": "ok", "message": input.get("message", "")}\<close>,
  \<^verbatim>\<open>fail\<close> returns \<^verbatim>\<open>{"variant": "error", "message": "intentional failure"}\<close>, and
  \<^verbatim>\<open>not_async\<close> is an ordinary method. The class has no docstring, so its \<^verbatim>\<open>__doc__\<close> is
  \<^verbatim>\<open>None\<close>. Every other name has no attribute.
\<close>

definition EchoHandler :: "'t handler" where
  "EchoHandler =
     map_of (object_attributes @
       [(''__doc__'', NoneValue),
        (''echo'', CoroutineFunction (\<lambda>input storage.
           (case input of
              PDict i \<Rightarrow> Inr (PDict [(''variant'', PStr ''ok''),
                                      (''message'', dict_get_default i ''message'' (PStr []))])
            | _ \<Rightarrow> Inl AttributeError, storage))),
        (''fail'', CoroutineFunction (\<lambda>input storage.
           (Inr (PDict [(''variant'', PStr ''error''),
                        (''message'', PStr ''intentional failure'')]), storage))),
        (''not_async'', OtherValue)])"

section \<open>Registry and transport (registry.py, transport.py)\<close>

text \<open>
  \<^verbatim>\<open>_REGISTRY\<close> maps a concept URI to a handler instance and a storage instance. Two
  concepts may be registered with the same storage object, so the registry holds a
  reference and the storages live in a store of their own.

  \<^verbatim>\<open>_REGISTRY.get(concept_uri)\<close> hashes its argument: a list or a dictionary raises
  \<^verbatim>\<open>TypeError\<close>, and a scalar that is not a string equals none of the keys.
\<close>

record 't world =
  registry :: "(string \<times> ('t handler \<times> nat)) list"
  stores :: "nat \<Rightarrow> 't storage"

definition registry_get :: "(string \<times> 'a) list \<Rightarrow> scalar \<Rightarrow> 'a option" where
  "registry_get reg c = (case c of SStr uri \<Rightarrow> map_of reg uri | _ \<Rightarrow> None)"

text \<open>\<^verbatim>\<open>str(x)\<close> of a scalar, as an f-string inserts it.\<close>

function str_nat :: "nat \<Rightarrow> string" where
  "str_nat n =
     (if n < 10 then [''0123456789'' ! n]
      else str_nat (n div 10) @ [''0123456789'' ! (n mod 10)])"
  by pat_completeness auto
termination
  by (relation "measure (\<lambda>n. n)") auto

fun py_str :: "scalar \<Rightarrow> string" where
  "py_str SNone = ''None''"
| "py_str (SBool b) = (if b then ''True'' else ''False'')"
| "py_str (SInt i) = (if i < 0 then ''-'' @ str_nat (nat (- i)) else str_nat (nat i))"
| "py_str (SStr s) = s"

text \<open>
  \<^verbatim>\<open>_handle_invoke\<close>. The two \<^verbatim>\<open>str(uuid.uuid4())\<close> defaults (evaluated whether or not
  the body has the field) and the formatted time
  \<^verbatim>\<open>time.strftime("%Y-%m-%dT%H:%M:%SZ", time.gmtime())\<close> are arguments. A field of the
  body may hold any value: \<^verbatim>\<open>getattr\<close> raises \<^verbatim>\<open>TypeError\<close> on an attribute name that is
  not a string.
\<close>

definition handle_invoke ::
  "'t world \<Rightarrow> pydict \<Rightarrow> string \<Rightarrow> string \<Rightarrow> string \<Rightarrow> (error + pydict) \<times> 't world" where
  "handle_invoke w body uuid_flow uuid_id timestamp =
     (let concept_uri = dict_get_default body ''concept'' (PStr []);
          action = dict_get_default body ''action'' (PStr []);
          input_data = dict_get_default body ''input'' (PDict []);
          flow = dict_get_default body ''flow'' (PStr uuid_flow);
          invocation_id = dict_get_default body ''id'' (PStr uuid_id)
      in case concept_uri of
           Atom c \<Rightarrow>
             (case registry_get (registry w) c of
                None \<Rightarrow>
                  (Inr [(''id'', invocation_id),
                        (''concept'', concept_uri),
                        (''action'', action),
                        (''input'', input_data),
                        (''variant'', PStr ''error''),
                        (''output'', PDict [(''variant'', PStr ''error''),
                           (''message'', PStr (''Unknown concept: '' @ py_str c))]),
                        (''flow'', flow),
                        (''timestamp'', PStr timestamp)], w)
              | Some (handler, ref) \<Rightarrow>
                  (case action of
                     Atom (SStr a) \<Rightarrow>
                       (case handle handler a input_data (stores w ref) of
                          (Inl e, storage') \<Rightarrow>
                            (Inl e, w\<lparr>stores := (stores w)(ref := storage')\<rparr>)
                        | (Inr result, storage') \<Rightarrow>
                            (case result of
                               PDict d \<Rightarrow>
                                 (Inr [(''id'', invocation_id),
                                       (''concept'', concept_uri),
                                       (''action'', action),
                                       (''input'', input_data),
                                       (''variant'',
                                          dict_get_default d ''variant'' (PStr ''ok'')),
                                       (''output'', result),
                                       (''flow'', flow),
                                       (''timestamp'', PStr timestamp)],
                                  w\<lparr>stores := (stores w)(ref := storage')\<rparr>)
                             | _ \<Rightarrow>
                                 (Inl AttributeError,
                                  w\<lparr>stores := (stores w)(ref := storage')\<rparr>)))
                   | _ \<Rightarrow> (Inl TypeError, w)))
         | _ \<Rightarrow> (Inl TypeError, w))"

text \<open>
  \<^verbatim>\<open>_handle_query\<close>. The relation name comes from the body unchecked. A list or a
  dictionary cannot be hashed by \<^verbatim>\<open>_ensure_relation\<close>; a scalar that is not a string
  names a relation that no string-named operation can have written, so \<^verbatim>\<open>find\<close>
  creates it empty and returns the empty list whatever the filter is.
\<close>

definition handle_query :: "'t world \<Rightarrow> pydict \<Rightarrow> (error + pydict list) \<times> 't world" where
  "handle_query w body =
     (let concept_uri = dict_get_default body ''concept'' (PStr []);
          relation = dict_get_default body ''relation'' (PStr []);
          args = dict_get body ''args''
      in case concept_uri of
           Atom c \<Rightarrow>
             (case registry_get (registry w) c of
                None \<Rightarrow> (Inr [], w)
              | Some (handler, ref) \<Rightarrow>
                  (case relation of
                     Atom (SStr r) \<Rightarrow>
                       (case find_storage (stores w ref) r args of
                          (res, storage') \<Rightarrow>
                            (res, w\<lparr>stores := (stores w)(ref := storage')\<rparr>))
                   | Atom _ \<Rightarrow> (Inr [], w)
                   | _ \<Rightarrow> (Inl TypeError, w)))
         | _ \<Rightarrow> (Inl TypeError, w))"

section \<open>Storage lemmas\<close>

lemma ensure_relation_rel:
  "fst (ensure_relation s r) = (case map_of s r of None \<Rightarrow> [] | Some rel \<Rightarrow> rel)"
  by (simp add: ensure_relation_def split: option.split)

lemma ensure_relation_lookup:
  "map_of (snd (ensure_relation s r)) r' =
     (if r' = r \<and> map_of s r = None then Some [] else map_of s r')"
  by (simp add: ensure_relation_def update_conv' split: option.split)

lemma stored_ensure: "stored (snd (ensure_relation s r)) r' k = stored s r' k"
  by (simp add: stored_def ensure_relation_lookup)

lemma get_result: "fst (get s r k) = map_option entry_value (stored s r k)"
  by (simp add: get_def stored_def ensure_relation_def split: option.split)

lemma get_state: "snd (get s r k) = snd (ensure_relation s r)"
  by (simp add: get_def split: prod.split option.split)

lemma delete_result: "fst (delete s r k) = (stored s r k \<noteq> None)"
  by (simp add: delete_def stored_def ensure_relation_def split: option.split)

lemma find_state: "snd (find_storage s r args) = snd (ensure_relation s r)"
  by (simp add: find_storage_def Let_def split: prod.split pyval.split)

lemma stored_put:
  "stored (put s r k v now) r' k' =
     (if r' = r \<and> k' = k then Some \<lparr>entry_value = v, lastWrittenAt = now\<rparr>
      else stored s r' k')"
  by (simp add: put_def stored_def ensure_relation_def update_conv' split: option.split)

lemma stored_delete:
  "stored (snd (delete s r k)) r' k' = (if r' = r \<and> k' = k then None else stored s r' k')"
  by (simp add: delete_def stored_def ensure_relation_def update_conv' delete_conv'
        split: option.split)

lemma stored_values_ensure:
  "stored_values (snd (ensure_relation s r)) r' = stored_values s r'"
  by (simp add: stored_values_def ensure_relation_lookup)

lemma find_result:
  "fst (find_storage s r args) =
     (if truthy args
      then (case args of
              PDict a \<Rightarrow> Inr (filter (matches a) (stored_values s r))
            | _ \<Rightarrow> if stored_values s r = [] then Inr [] else Inl AttributeError)
      else Inr (stored_values s r))"
  by (simp add: find_storage_def stored_values_def ensure_relation_def Let_def
        split: option.split pyval.split)

lemma stored_values_put_other:
  "r' \<noteq> r \<Longrightarrow> stored_values (put s r k v now) r' = stored_values s r'"
  by (simp add: put_def stored_values_def ensure_relation_def update_conv'
        split: option.split)

lemma stored_values_delete_other:
  "r' \<noteq> r \<Longrightarrow> stored_values (snd (delete s r k)) r' = stored_values s r'"
  by (simp add: delete_def stored_values_def ensure_relation_def update_conv'
        split: option.split)

lemma stored_values_delete_empty:
  "stored_values s r = [] \<Longrightarrow> stored_values (snd (delete s r' k)) r = []"
  by (cases "r' = r")
     (auto simp: delete_def stored_values_def ensure_relation_def update_conv'
        split: option.splits)

lemma apply_op_stored:
  "\<not> writes r k op \<Longrightarrow> stored s r k = None \<Longrightarrow> stored (apply_op s op) r k = None"
  by (cases op) (auto simp: get_state find_state stored_ensure stored_put stored_delete)

lemma apply_op_values:
  "\<not> writes_relation r op \<Longrightarrow> stored_values s r = [] \<Longrightarrow>
     stored_values (apply_op s op) r = []"
  by (cases op)
     (auto simp: get_state find_state stored_values_ensure stored_values_put_other
        stored_values_delete_empty)

lemma foldl_stored:
  "\<forall>op\<in>set ops. \<not> writes r k op \<Longrightarrow> stored s r k = None \<Longrightarrow>
     stored (foldl apply_op s ops) r k = None"
  by (induction ops arbitrary: s) (simp_all add: apply_op_stored)

lemma foldl_values:
  "\<forall>op\<in>set ops. \<not> writes_relation r op \<Longrightarrow> stored_values s r = [] \<Longrightarrow>
     stored_values (foldl apply_op s ops) r = []"
  by (induction ops arbitrary: s) (simp_all add: apply_op_values)

lemma py_eq_None: "py_eq PNone x = (x = PNone)"
proof (cases x)
  case (Atom a)
  then show ?thesis by (cases a) simp_all
qed simp_all

section \<open>Storage claims\<close>

text \<open>
  C5. Right after \<^verbatim>\<open>put(r, k, v)\<close>, \<^verbatim>\<open>get(r, k)\<close> returns exactly \<open>v\<close>, whatever the
  storage held before; and after \<^verbatim>\<open>put(r, k, v1)\<close> followed by \<^verbatim>\<open>put(r, k, v2)\<close>,
  \<^verbatim>\<open>get(r, k)\<close> returns \<open>v2\<close>: the later write replaces the earlier one.
\<close>

theorem put_get_round_trip:
  "fst (get (put s r k v now) r k) = Some v \<and>
   fst (get (put (put s r k v1 t1) r k v2 t2) r k) = Some v2"
  by (simp add: get_result stored_put)

theorem put_get_round_trip_witness:
  "fst (get (put (InMemoryStorage :: nat storage) ''users'' ''alice'' [(''v'', PInt 1)] 1)
          ''users'' ''alice'') = Some [(''v'', PInt 1)] \<and>
   fst (get (put (put (InMemoryStorage :: nat storage) ''users'' ''alice'' [(''v'', PInt 1)] 1)
               ''users'' ''alice'' [(''v'', PInt 2)] 2)
          ''users'' ''alice'') = Some [(''v'', PInt 2)]"
  using put_get_round_trip [of "InMemoryStorage :: nat storage" "''users''" "''alice''"
      "[(''v'', PInt 1)]" 1 "[(''v'', PInt 1)]" 1 "[(''v'', PInt 2)]" 2]
  by simp

text \<open>
  C8. Relations are isolated: for distinct relation names \<open>r1\<close> and \<open>r2\<close>, a
  \<^verbatim>\<open>put\<close> or a \<^verbatim>\<open>delete\<close> of any key in \<open>r1\<close> leaves the result of every \<^verbatim>\<open>get\<close> and
  every \<^verbatim>\<open>find\<close> on \<open>r2\<close> as it was.
\<close>

theorem relations_isolated:
  "r1 \<noteq> r2 \<Longrightarrow>
     fst (get (put s r1 k v now) r2 k') = fst (get s r2 k') \<and>
     fst (find_storage (put s r1 k v now) r2 args) = fst (find_storage s r2 args) \<and>
     fst (get (snd (delete s r1 k)) r2 k') = fst (get s r2 k') \<and>
     fst (find_storage (snd (delete s r1 k)) r2 args) = fst (find_storage s r2 args)"
  by (simp add: get_result find_result stored_put stored_delete
        stored_values_put_other stored_values_delete_other split: pyval.split)

theorem relations_isolated_witness:
  "''users'' \<noteq> ''posts'' \<and>
   fst (get (put (put InMemoryStorage ''posts'' ''k1'' [(''type'', PStr ''post'')] (1::nat))
               ''users'' ''k1'' [(''type'', PStr ''user'')] 2) ''posts'' ''k1'')
     = Some [(''type'', PStr ''post'')] \<and>
   fst (find_storage (put (put InMemoryStorage ''posts'' ''k1'' [(''type'', PStr ''post'')] (1::nat))
               ''users'' ''k1'' [(''type'', PStr ''user'')] 2) ''posts'' PNone)
     = Inr [[(''type'', PStr ''post'')]]"
  using relations_isolated [of "''users''" "''posts''"
      "put InMemoryStorage ''posts'' ''k1'' [(''type'', PStr ''post'')] (1::nat)"
      "''k1''" "[(''type'', PStr ''user'')]" 2 "''k1''" PNone]
  by (simp add: get_def find_storage_def put_def delete_def ensure_relation_def
        InMemoryStorage_def)

text \<open>
  C6. Start from a fresh storage and run any sequence of operations. If none of them is
  a \<^verbatim>\<open>put\<close> of key \<open>k\<close> in relation \<open>r\<close>, then \<^verbatim>\<open>get(r, k)\<close> returns \<^verbatim>\<open>None\<close> and
  \<^verbatim>\<open>delete(r, k)\<close> returns \<^verbatim>\<open>False\<close>; if none of them is a \<^verbatim>\<open>put\<close> into relation \<open>r\<close>,
  then \<^verbatim>\<open>find\<close> on \<open>r\<close> returns the empty list, whatever the filter. None of the three
  raises.
\<close>

theorem never_written_absent:
  "((\<forall>op\<in>set ops. \<not> writes r k op) \<longrightarrow>
      fst (get (run_ops ops) r k) = None \<and> fst (delete (run_ops ops) r k) = False) \<and>
   ((\<forall>op\<in>set ops. \<not> writes_relation r op) \<longrightarrow>
      fst (find_storage (run_ops ops) r args) = Inr [])"
proof (intro conjI impI)
  assume nw: "\<forall>op\<in>set ops. \<not> writes r k op"
  have "stored (InMemoryStorage :: 'a storage) r k = None"
    by (simp add: stored_def InMemoryStorage_def)
  with nw have "stored (run_ops ops) r k = None"
    unfolding run_ops_def by (rule foldl_stored)
  then show "fst (get (run_ops ops) r k) = None"
    and "fst (delete (run_ops ops) r k) = False"
    by (simp_all add: get_result delete_result)
next
  assume nw: "\<forall>op\<in>set ops. \<not> writes_relation r op"
  have "stored_values (InMemoryStorage :: 'a storage) r = []"
    by (simp add: stored_values_def InMemoryStorage_def)
  with nw have "stored_values (run_ops ops) r = []"
    unfolding run_ops_def by (rule foldl_values)
  then show "fst (find_storage (run_ops ops) r args) = Inr []"
    by (simp add: find_result split: pyval.split)
qed

theorem never_written_absent_witness:
  "list_all (\<lambda>op. \<not> writes ''users'' ''bob'' op)
     [Put ''users'' ''alice'' [(''name'', PStr ''Alice'')] (1::nat),
      Get ''users'' ''bob'', Delete ''users'' ''alice'', Find ''posts'' PNone] \<and>
   fst (get (run_ops [Put ''users'' ''alice'' [(''name'', PStr ''Alice'')] (1::nat),
               Get ''users'' ''bob'', Delete ''users'' ''alice'', Find ''posts'' PNone])
          ''users'' ''bob'') = None \<and>
   fst (delete (run_ops [Put ''users'' ''alice'' [(''name'', PStr ''Alice'')] (1::nat),
               Get ''users'' ''bob'', Delete ''users'' ''alice'', Find ''posts'' PNone])
          ''users'' ''bob'') = False \<and>
   list_all (\<lambda>op. \<not> writes_relation ''posts'' op)
     [Put ''users'' ''alice'' [(''name'', PStr ''Alice'')] (1::nat),
      Get ''users'' ''bob'', Delete ''users'' ''alice'', Find ''posts'' PNone] \<and>
   fst (find_storage (run_ops [Put ''users'' ''alice'' [(''name'', PStr ''Alice'')] (1::nat),
               Get ''users'' ''bob'', Delete ''users'' ''alice'', Find ''posts'' PNone])
          ''posts'' (PDict [(''type'', PStr ''post'')])) = Inr []"
  using never_written_absent [of
      "[Put ''users'' ''alice'' [(''name'', PStr ''Alice'')] (1::nat),
        Get ''users'' ''bob'', Delete ''users'' ''alice'', Find ''posts'' PNone]"
      "''users''" "''bob''"]
    never_written_absent [of
      "[Put ''users'' ''alice'' [(''name'', PStr ''Alice'')] (1::nat),
        Get ''users'' ''bob'', Delete ''users'' ''alice'', Find ''posts'' PNone]"
      "''posts''" "''bob''" "PDict [(''type'', PStr ''post'')]"]
  by simp

text \<open>
  C1, as the code has it. \<^verbatim>\<open>find(r, f)\<close> with a filter dictionary \<open>f\<close> returns exactly
  the stored values \<open>v\<close> of \<open>r\<close>, in their stored order, such that for every item
  \<open>(k, fv)\<close> of \<open>f\<close> the field \<^verbatim>\<open>v.get(k)\<close> equals \<open>fv\<close>, where the field of a
  value that lacks the key \<open>k\<close> reads as \<^verbatim>\<open>None\<close>. So a value that lacks a key of \<open>f\<close>
  is excluded unless the filter value for that key is \<^verbatim>\<open>None\<close>: a returned value lacks
  only keys that \<open>f\<close> maps to \<^verbatim>\<open>None\<close>.
\<close>

theorem find_filter_semantics:
  "\<exists>res. fst (find_storage s r (PDict f)) = Inr res \<and>
     res = filter (\<lambda>v. \<forall>(k, fv)\<in>set f.
                     py_eq (case map_of v k of None \<Rightarrow> PNone | Some x \<Rightarrow> x) fv)
             (stored_values s r) \<and>
     (\<forall>v\<in>set res. \<forall>(k, fv)\<in>set f. map_of v k = None \<longrightarrow> fv = PNone)"
proof -
  let ?P = "\<lambda>v. \<forall>(k, fv)\<in>set f.
              py_eq (case map_of v k of None \<Rightarrow> PNone | Some x \<Rightarrow> x) fv"
  have m: "matches f = ?P"
    by (auto simp: matches_def list_all_iff dict_get_def fun_eq_iff)
  have res: "fst (find_storage s r (PDict f)) = Inr (filter ?P (stored_values s r))"
    by (cases "f = []") (simp_all add: find_result m)
  have "fv = PNone"
    if "v \<in> set (filter ?P (stored_values s r))" "(k, fv) \<in> set f" "map_of v k = None"
    for v k fv
  proof -
    from that have "py_eq PNone fv" by auto
    then show ?thesis by (simp add: py_eq_None)
  qed
  with res show ?thesis by blast
qed

theorem find_filter_semantics_witness:
  "fst (find_storage
          (put (put InMemoryStorage ''users'' ''alice''
                  [(''name'', PStr ''Alice''), (''role'', PStr ''admin'')] (1::nat))
             ''users'' ''bob'' [(''name'', PStr ''Bob''), (''role'', PStr ''user'')] 2)
          ''users'' (PDict [(''role'', PStr ''admin'')]))
     = Inr [[(''name'', PStr ''Alice''), (''role'', PStr ''admin'')]]"
  using find_filter_semantics [of
      "put (put InMemoryStorage ''users'' ''alice''
              [(''name'', PStr ''Alice''), (''role'', PStr ''admin'')] (1::nat))
         ''users'' ''bob'' [(''name'', PStr ''Bob''), (''role'', PStr ''user'')] 2"
      "''users''" "[(''role'', PStr ''admin'')]"]
  by (simp add: stored_values_def put_def ensure_relation_def InMemoryStorage_def)

text \<open>
  C1, as the spec states it, fails: a stored value that lacks the filtered key is
  returned when the filter value is \<^verbatim>\<open>None\<close>. With \<^verbatim>\<open>{"name": "Alice"}\<close> stored under
  \<^verbatim>\<open>users/alice\<close>, the filter \<^verbatim>\<open>{"role": None}\<close> returns that value, which has no
  \<^verbatim>\<open>role\<close> field.
\<close>

theorem find_null_filter_counterexample:
  "fst (find_storage
          (put InMemoryStorage ''users'' ''alice'' [(''name'', PStr ''Alice'')] (1::nat))
          ''users'' (PDict [(''role'', PNone)]))
     = Inr [[(''name'', PStr ''Alice'')]] \<and>
   map_of [(''name'', PStr ''Alice'')] ''role'' = None"
  by (simp add: find_storage_def put_def ensure_relation_def InMemoryStorage_def
        matches_def dict_get_def)

section \<open>Dispatch claims\<close>

text \<open>
  C2, as the code has it. For every action name \<open>a\<close> other than \<^verbatim>\<open>handle\<close> for which
  the handler instance has no attribute of that name, or has one whose value is
  \<^verbatim>\<open>None\<close> (the two cases in which \<^verbatim>\<open>getattr(self, a, None)\<close> is \<^verbatim>\<open>None\<close>), for every
  input and every storage, \<^verbatim>\<open>handle\<close> returns
  \<^verbatim>\<open>{"variant": "error", "message": "Unknown action: <a>"}\<close>, raises nothing and leaves
  the storage as it was.
\<close>

theorem unknown_action_error:
  "a \<noteq> ''handle'' \<Longrightarrow> self a = None \<or> self a = Some NoneValue \<Longrightarrow>
     handle self a input storage =
       (Inr (PDict [(''variant'', PStr ''error''),
                    (''message'', PStr (''Unknown action: '' @ a))]), storage)"
  by (auto simp: handle_def getattr_def)

theorem unknown_action_error_witness:
  "''nonexistent'' \<noteq> ''handle'' \<and>
   (EchoHandler :: nat handler) ''nonexistent'' = None \<and>
   handle (EchoHandler :: nat handler) ''nonexistent'' (PDict []) InMemoryStorage =
     (Inr (PDict [(''variant'', PStr ''error''),
                  (''message'', PStr ''Unknown action: nonexistent'')]), InMemoryStorage)"
proof -
  have h1: "''nonexistent'' \<noteq> ''handle''"
    by simp
  have h2: "(EchoHandler :: nat handler) ''nonexistent'' = None"
    by (simp add: EchoHandler_def object_attributes_def)
  from h2 have h3: "(EchoHandler :: nat handler) ''nonexistent'' = None \<or>
      (EchoHandler :: nat handler) ''nonexistent'' = Some NoneValue"
    by (rule disjI1)
  show ?thesis
    using h1 h2
      unknown_action_error [of "''nonexistent''" "EchoHandler :: nat handler" "PDict []"
        InMemoryStorage, OF h1 h3]
    by simp
qed

text \<open>
  C2, as the spec states it, fails: a name can resolve to an attribute that is not an
  operation. On the handler of the tests the name \<^verbatim>\<open>__init__\<close> resolves to the
  initialiser every object has, which is no action of the handler, and \<^verbatim>\<open>handle\<close>
  answers that the action must be async instead of reporting an unknown action.
\<close>

theorem unknown_action_non_operation_counterexample:
  "(EchoHandler :: nat handler) ''__init__'' = Some OtherValue \<and>
   handle (EchoHandler :: nat handler) ''__init__'' (PDict []) InMemoryStorage =
     (Inr (PDict [(''variant'', PStr ''error''),
                  (''message'', PStr (''Action '' @ [CHR 0x27] @ ''__init__'' @ [CHR 0x27]
                                        @ '' must be async''))]), InMemoryStorage) \<and>
   handle (EchoHandler :: nat handler) ''__init__'' (PDict []) InMemoryStorage \<noteq>
     (Inr (PDict [(''variant'', PStr ''error''),
                  (''message'', PStr ''Unknown action: __init__'')]), InMemoryStorage)"
  by (simp add: handle_def getattr_def EchoHandler_def object_attributes_def)

text \<open>
  C7. When the action name resolves to a coroutine function and calling it with
  \<^verbatim>\<open>(input, storage)\<close> returns a dictionary that has a \<^verbatim>\<open>variant\<close> key, \<^verbatim>\<open>handle\<close>
  returns that very dictionary, whatever its variant is (\<^verbatim>\<open>"error"\<close> included), and
  the storage the operation left.
\<close>

theorem handler_result_pass_through:
  "getattr self a = CoroutineFunction m \<Longrightarrow>
   m input storage = (Inr (PDict d), storage') \<Longrightarrow>
   map_of d ''variant'' = Some v \<Longrightarrow>
     handle self a input storage = (Inr (PDict d), storage')"
  by (simp add: handle_def)

theorem handler_result_pass_through_witness:
  "handle (EchoHandler :: nat handler) ''fail'' (PDict []) InMemoryStorage =
     (Inr (PDict [(''variant'', PStr ''error''),
                  (''message'', PStr ''intentional failure'')]), InMemoryStorage)"
proof -
  let ?m = "\<lambda>(input :: pyval) (storage :: nat storage).
      (Inr (PDict [(''variant'', PStr ''error''),
                   (''message'', PStr ''intentional failure'')]) :: error + pyval, storage)"
  have h1: "getattr (EchoHandler :: nat handler) ''fail'' = CoroutineFunction ?m"
    by (simp add: getattr_def EchoHandler_def object_attributes_def)
  have h2: "?m (PDict []) InMemoryStorage =
      (Inr (PDict [(''variant'', PStr ''error''),
                   (''message'', PStr ''intentional failure'')]), InMemoryStorage)"
    by simp
  have h3: "map_of [(''variant'', PStr ''error''),
                    (''message'', PStr ''intentional failure'')] ''variant''
              = Some (PStr ''error'')"
    by simp
  show ?thesis
    by (rule handler_result_pass_through [OF h1 h2 h3])
qed

text \<open>
  C10. The action name \<^verbatim>\<open>handle\<close> resolves to the dispatcher itself, a coroutine
  function inherited from \<^verbatim>\<open>ConceptHandler\<close>, for every handler instance. Dispatch then
  calls it with \<^verbatim>\<open>(input, storage)\<close>, which raises \<^verbatim>\<open>TypeError\<close> to the caller instead of
  returning the unknown-action error: \<^verbatim>\<open>handle\<close> does not return a result for every
  action name.
\<close>

theorem handle_resolves_to_itself:
  "getattr self ''handle'' = base_handle \<and>
   getattr self ''handle'' \<noteq> NoneValue \<and>
   handle self ''handle'' input storage = (Inl TypeError, storage)"
  by (simp add: handle_def getattr_def base_handle_def)

theorem handle_resolves_to_itself_witness:
  "handle (EchoHandler :: nat handler) ''handle'' (PDict []) InMemoryStorage
     = (Inl TypeError, InMemoryStorage)"
  using handle_resolves_to_itself [of "EchoHandler :: nat handler" "PDict []" InMemoryStorage]
  by simp

section \<open>Transport lemmas\<close>

lemma handle_returns_variant:
  "handle self a input st = (Inr r, st') \<Longrightarrow>
     \<exists>d v. r = PDict d \<and> map_of d ''variant'' = Some v"
  by (auto simp: handle_def split: attr.splits prod.splits sum.splits pyval.splits if_splits)

lemma handle_returns:
  "getattr self a = NoneValue \<or> getattr self a = OtherValue \<or>
   (\<exists>m res st'. getattr self a = CoroutineFunction m \<and> m input st = (Inr res, st')) \<Longrightarrow>
     \<exists>r st'. handle self a input st = (Inr r, st')"
  by (auto simp: handle_def split: pyval.splits)

lemma handle_invoke_unknown:
  "dict_get_default body ''concept'' (PStr []) = Atom c \<Longrightarrow>
   registry_get (registry w) c = None \<Longrightarrow>
     handle_invoke w body uuid_flow uuid_id timestamp =
       (Inr [(''id'', dict_get_default body ''id'' (PStr uuid_id)),
             (''concept'', Atom c),
             (''action'', dict_get_default body ''action'' (PStr [])),
             (''input'', dict_get_default body ''input'' (PDict [])),
             (''variant'', PStr ''error''),
             (''output'', PDict [(''variant'', PStr ''error''),
                (''message'', PStr (''Unknown concept: '' @ py_str c))]),
             (''flow'', dict_get_default body ''flow'' (PStr uuid_flow)),
             (''timestamp'', PStr timestamp)], w)"
  by (simp add: handle_invoke_def Let_def)

lemma handle_invoke_registered:
  "dict_get_default body ''concept'' (PStr []) = Atom c \<Longrightarrow>
   registry_get (registry w) c = Some (h, ref) \<Longrightarrow>
   dict_get_default body ''action'' (PStr []) = PStr a \<Longrightarrow>
   handle h a (dict_get_default body ''input'' (PDict [])) (stores w ref)
     = (Inr (PDict d), st') \<Longrightarrow>
     handle_invoke w body uuid_flow uuid_id timestamp =
       (Inr [(''id'', dict_get_default body ''id'' (PStr uuid_id)),
             (''concept'', Atom c),
             (''action'', PStr a),
             (''input'', dict_get_default body ''input'' (PDict [])),
             (''variant'', dict_get_default d ''variant'' (PStr ''ok'')),
             (''output'', PDict d),
             (''flow'', dict_get_default body ''flow'' (PStr uuid_flow)),
             (''timestamp'', PStr timestamp)],
        w\<lparr>stores := (stores w)(ref := st')\<rparr>)"
  by (simp add: handle_invoke_def Let_def)

lemma handle_invoke_cases:
  assumes "handle_invoke w body uuid_flow uuid_id timestamp = (Inr completion, w')"
  obtains (unknown) c where
      "dict_get_default body ''concept'' (PStr []) = Atom c"
      "registry_get (registry w) c = None"
    | (registered) c h ref a d st' where
      "dict_get_default body ''concept'' (PStr []) = Atom c"
      "registry_get (registry w) c = Some (h, ref)"
      "dict_get_default body ''action'' (PStr []) = PStr a"
      "handle h a (dict_get_default body ''input'' (PDict [])) (stores w ref)
         = (Inr (PDict d), st')"
  using assms
  by (auto simp: handle_invoke_def Let_def
        split: pyval.splits scalar.splits option.splits prod.splits sum.splits)

section \<open>Transport claims\<close>

text \<open>
  C3. Every completion that \<^verbatim>\<open>_handle_invoke\<close> returns has an \<^verbatim>\<open>output\<close> that is a
  dictionary with a \<^verbatim>\<open>variant\<close> key, and its top-level \<^verbatim>\<open>variant\<close> is the variant inside
  the output. A completion is returned on the unknown-concept path (the concept is
  hashable and not registered), and, for a registered concept and a string action name,
  on every dispatch contract failure (the name resolves to \<^verbatim>\<open>None\<close> or to something
  that is not a coroutine function, or the operation returns a malformed value) and on
  the success path (the operation returns).
\<close>

theorem invoke_completion_variant:
  "(handle_invoke w body uuid_flow uuid_id timestamp = (Inr completion, w') \<longrightarrow>
      (\<exists>d v. map_of completion ''output'' = Some (PDict d) \<and>
             map_of d ''variant'' = Some v \<and> map_of completion ''variant'' = Some v)) \<and>
   (dict_get_default body ''concept'' (PStr []) = Atom c \<and>
    registry_get (registry w) c = None \<longrightarrow>
      (\<exists>completion. handle_invoke w body uuid_flow uuid_id timestamp = (Inr completion, w))) \<and>
   (dict_get_default body ''concept'' (PStr []) = Atom c \<and>
    registry_get (registry w) c = Some (h, ref) \<and>
    dict_get_default body ''action'' (PStr []) = PStr a \<and>
    (getattr h a = NoneValue \<or> getattr h a = OtherValue \<or>
     (\<exists>m res st'. getattr h a = CoroutineFunction m \<and>
        m (dict_get_default body ''input'' (PDict [])) (stores w ref) = (Inr res, st'))) \<longrightarrow>
      (\<exists>completion w''. handle_invoke w body uuid_flow uuid_id timestamp = (Inr completion, w'')))"
proof (intro conjI impI)
  assume ret: "handle_invoke w body uuid_flow uuid_id timestamp = (Inr completion, w')"
  then show "\<exists>d v. map_of completion ''output'' = Some (PDict d) \<and>
      map_of d ''variant'' = Some v \<and> map_of completion ''variant'' = Some v"
  proof (cases rule: handle_invoke_cases)
    case (unknown c)
    from handle_invoke_unknown [OF unknown, of uuid_flow uuid_id timestamp] ret
    show ?thesis by auto
  next
    case (registered c h ref a d st')
    from handle_returns_variant [OF registered(4)]
    obtain v where v: "map_of d ''variant'' = Some v" by auto
    from handle_invoke_registered [OF registered, of uuid_flow uuid_id timestamp] ret v
    show ?thesis by (auto simp: dict_get_default_def)
  qed
next
  assume "dict_get_default body ''concept'' (PStr []) = Atom c \<and>
    registry_get (registry w) c = None"
  then show "\<exists>completion. handle_invoke w body uuid_flow uuid_id timestamp = (Inr completion, w)"
    by (simp add: handle_invoke_unknown)
next
  assume a: "dict_get_default body ''concept'' (PStr []) = Atom c \<and>
    registry_get (registry w) c = Some (h, ref) \<and>
    dict_get_default body ''action'' (PStr []) = PStr a \<and>
    (getattr h a = NoneValue \<or> getattr h a = OtherValue \<or>
     (\<exists>m res st'. getattr h a = CoroutineFunction m \<and>
        m (dict_get_default body ''input'' (PDict [])) (stores w ref) = (Inr res, st')))"
  then obtain r st' where
    r: "handle h a (dict_get_default body ''input'' (PDict [])) (stores w ref) = (Inr r, st')"
    using handle_returns [of h a "dict_get_default body ''input'' (PDict [])" "stores w ref"]
    by blast
  from handle_returns_variant [OF r] obtain d where "r = PDict d" by auto
  with a r show "\<exists>completion w''. handle_invoke w body uuid_flow uuid_id timestamp = (Inr completion, w'')"
    by (simp add: handle_invoke_registered)
qed

theorem invoke_completion_variant_witness:
  "handle_invoke
     \<lparr>registry = [(''urn:test/Echo'', (EchoHandler, 0))],
      stores = (\<lambda>_. InMemoryStorage :: nat storage)\<rparr>
     [(''concept'', PStr ''urn:test/Echo''), (''action'', PStr ''echo''),
      (''input'', PDict [(''message'', PStr ''hi'')])]
     ''flow-1'' ''id-1'' ''2026-01-01T00:00:00Z''
   = (Inr [(''id'', PStr ''id-1''),
           (''concept'', PStr ''urn:test/Echo''),
           (''action'', PStr ''echo''),
           (''input'', PDict [(''message'', PStr ''hi'')]),
           (''variant'', PStr ''ok''),
           (''output'', PDict [(''variant'', PStr ''ok''), (''message'', PStr ''hi'')]),
           (''flow'', PStr ''flow-1''),
           (''timestamp'', PStr ''2026-01-01T00:00:00Z'')],
      \<lparr>registry = [(''urn:test/Echo'', (EchoHandler, 0))],
       stores = (\<lambda>_. InMemoryStorage :: nat storage)\<rparr>) \<and>
   (\<exists>d v. map_of [(''id'', PStr ''id-1''),
           (''concept'', PStr ''urn:test/Echo''),
           (''action'', PStr ''echo''),
           (''input'', PDict [(''message'', PStr ''hi'')]),
           (''variant'', PStr ''ok''),
           (''output'', PDict [(''variant'', PStr ''ok''), (''message'', PStr ''hi'')]),
           (''flow'', PStr ''flow-1''),
           (''timestamp'', PStr ''2026-01-01T00:00:00Z'')] ''output'' = Some (PDict d) \<and>
      map_of d ''variant'' = Some v \<and> v = PStr ''ok'')"
proof -
  let ?w = "\<lparr>registry = [(''urn:test/Echo'', (EchoHandler, 0))],
      stores = (\<lambda>_. InMemoryStorage :: nat storage)\<rparr>"
  let ?body = "[(''concept'', PStr ''urn:test/Echo''), (''action'', PStr ''echo''),
      (''input'', PDict [(''message'', PStr ''hi'')])]"
  let ?comp = "[(''id'', PStr ''id-1''),
           (''concept'', PStr ''urn:test/Echo''),
           (''action'', PStr ''echo''),
           (''input'', PDict [(''message'', PStr ''hi'')]),
           (''variant'', PStr ''ok''),
           (''output'', PDict [(''variant'', PStr ''ok''), (''message'', PStr ''hi'')]),
           (''flow'', PStr ''flow-1''),
           (''timestamp'', PStr ''2026-01-01T00:00:00Z'')]"
  let ?echo = "\<lambda>(input :: pyval) (storage :: nat storage).
      (case input of
         PDict i \<Rightarrow> Inr (PDict [(''variant'', PStr ''ok''),
                                 (''message'', dict_get_default i ''message'' (PStr []))])
       | _ \<Rightarrow> Inl AttributeError, storage)"
  have echo: "getattr (EchoHandler :: nat handler) ''echo'' = CoroutineFunction ?echo"
    by (simp add: getattr_def EchoHandler_def object_attributes_def)
  have dispatch: "handle (EchoHandler :: nat handler) ''echo''
      (PDict [(''message'', PStr ''hi'')]) InMemoryStorage
      = (Inr (PDict [(''variant'', PStr ''ok''), (''message'', PStr ''hi'')]),
         InMemoryStorage)"
    by (simp add: handle_def echo dict_get_default_def)
  have run: "handle_invoke ?w ?body ''flow-1'' ''id-1'' ''2026-01-01T00:00:00Z''
      = (Inr ?comp, ?w)"
    by (simp add: handle_invoke_def Let_def dict_get_default_def registry_get_def
          dispatch fun_upd_idem)
  from invoke_completion_variant [of ?w ?body "''flow-1''" "''id-1''"
      "''2026-01-01T00:00:00Z''" ?comp ?w] run
  have "\<exists>d v. map_of ?comp ''output'' = Some (PDict d) \<and>
      map_of d ''variant'' = Some v \<and> map_of ?comp ''variant'' = Some v"
    by blast
  then have "\<exists>d v. map_of ?comp ''output'' = Some (PDict d) \<and>
      map_of d ''variant'' = Some v \<and> v = PStr ''ok''"
    by auto
  with run show ?thesis by blast
qed

text \<open>
  C4. When the concept identifier of the body (the empty string when the body has none)
  is hashable and not registered, \<^verbatim>\<open>_handle_invoke\<close> returns, without raising, a
  completion with variant \<^verbatim>\<open>error\<close> whose output is
  \<^verbatim>\<open>{"variant": "error", "message": "Unknown concept: <id>"}\<close>, where \<^verbatim>\<open><id>\<close> is
  the identifier as \<^verbatim>\<open>str\<close> prints it (a string identifier is inserted as it is), and
  the registry and the storages are left as they were; \<^verbatim>\<open>_handle_query\<close> on the same
  body returns the empty list.
\<close>

theorem unknown_concept:
  "dict_get_default body ''concept'' (PStr []) = Atom c \<Longrightarrow>
   registry_get (registry w) c = None \<Longrightarrow>
     handle_invoke w body uuid_flow uuid_id timestamp =
       (Inr [(''id'', dict_get_default body ''id'' (PStr uuid_id)),
             (''concept'', Atom c),
             (''action'', dict_get_default body ''action'' (PStr [])),
             (''input'', dict_get_default body ''input'' (PDict [])),
             (''variant'', PStr ''error''),
             (''output'', PDict [(''variant'', PStr ''error''),
                (''message'', PStr (''Unknown concept: '' @ py_str c))]),
             (''flow'', dict_get_default body ''flow'' (PStr uuid_flow)),
             (''timestamp'', PStr timestamp)], w) \<and>
     handle_query w body = (Inr [], w)"
  by (simp add: handle_invoke_unknown handle_query_def Let_def)

theorem unknown_concept_witness:
  "handle_invoke
     \<lparr>registry = [(''urn:test/Echo'', (EchoHandler, 0))],
      stores = (\<lambda>_. InMemoryStorage :: nat storage)\<rparr>
     [(''concept'', PStr ''urn:test/Missing''), (''action'', PStr ''echo''),
      (''input'', PDict [(''message'', PStr ''hi'')])]
     ''flow-1'' ''id-1'' ''2026-01-01T00:00:00Z''
   = (Inr [(''id'', PStr ''id-1''),
           (''concept'', PStr ''urn:test/Missing''),
           (''action'', PStr ''echo''),
           (''input'', PDict [(''message'', PStr ''hi'')]),
           (''variant'', PStr ''error''),
           (''output'', PDict [(''variant'', PStr ''error''),
              (''message'', PStr ''Unknown concept: urn:test/Missing'')]),
           (''flow'', PStr ''flow-1''),
           (''timestamp'', PStr ''2026-01-01T00:00:00Z'')],
      \<lparr>registry = [(''urn:test/Echo'', (EchoHandler, 0))],
       stores = (\<lambda>_. InMemoryStorage :: nat storage)\<rparr>) \<and>
   handle_query
     \<lparr>registry = [(''urn:test/Echo'', (EchoHandler, 0))],
      stores = (\<lambda>_. InMemoryStorage :: nat storage)\<rparr>
     [(''concept'', PStr ''urn:test/Missing''), (''action'', PStr ''echo''),
      (''input'', PDict [(''message'', PStr ''hi'')])]
   = (Inr [],
      \<lparr>registry = [(''urn:test/Echo'', (EchoHandler, 0))],
       stores = (\<lambda>_. InMemoryStorage :: nat storage)\<rparr>)"
proof -
  let ?w = "\<lparr>registry = [(''urn:test/Echo'', (EchoHandler, 0))],
      stores = (\<lambda>_. InMemoryStorage :: nat storage)\<rparr>"
  let ?body = "[(''concept'', PStr ''urn:test/Missing''), (''action'', PStr ''echo''),
      (''input'', PDict [(''message'', PStr ''hi'')])]"
  have h1: "dict_get_default ?body ''concept'' (PStr []) = Atom (SStr ''urn:test/Missing'')"
    by (simp add: dict_get_default_def)
  have h2: "registry_get (registry ?w) (SStr ''urn:test/Missing'') = None"
    by (simp add: registry_get_def)
  show ?thesis
    using unknown_concept [OF h1 h2, of "''flow-1''" "''id-1''" "''2026-01-01T00:00:00Z''"]
    by (simp add: dict_get_default_def)
qed

end
